theory Spec2Isabelle
  imports Main "HOL-Library.Word"
begin

unbundle bit_operations_syntax

section \<open>LPC43xx GPIO driver (firmware/include/drivers/gpio.h and its implementation)\<close>

subsection \<open>Platform constants and types\<close>

text \<open>
  Modelled from the spec: \<open>GPIO_MAX_PORTS\<close> and \<open>GPIO_MAX_PORT_BITS\<close> come from
  \<open>drivers/platform_gpio.h\<close>, a platform header that is not among the files verified here. The spec calls them
  the dimensions of the topology table; the two tables of the driver have 6 rows of 20
  entries each.
\<close>

definition GPIO_MAX_PORTS :: nat where
  "GPIO_MAX_PORTS = 6"

definition GPIO_MAX_PORT_BITS :: nat where
  "GPIO_MAX_PORT_BITS = 20"

text \<open>The error constant of \<open>errno.h\<close>.\<close>

definition EINVAL :: int where
  "EINVAL = 22"

text \<open>
  Modelled from the spec: \<open>gpio_pin_t\<close> is declared in \<open>drivers/platform_gpio.h\<close>; the
  driver reads its fields \<open>port\<close> and \<open>pin\<close> and passes every port as \<open>uint8_t\<close>.
\<close>

record gpio_pin_t =
  port :: "8 word"
  pin :: "8 word"

definition gpio_pin :: "8 word \<Rightarrow> 8 word \<Rightarrow> gpio_pin_t" where
  "gpio_pin prt b = \<lparr>port = prt, pin = b\<rparr>"

subsection \<open>The memory-mapped hardware\<close>

type_synonym addr = "32 word"

text \<open>Every volatile access of the driver is one event on the bus.\<close>

datatype access = Load addr | Store addr "32 word"

text \<open>
  The state the driver acts on: the contents of the register window, the accesses made so
  far, and the calls made to the pinmux collaborator \<open>platform_scu_configure_pin_gpio\<close>
  (group, pin, function, resistor mode). The resistor mode is an opaque token \<open>'r\<close>.
\<close>

record 'r hw =
  mem :: "addr \<Rightarrow> 32 word"
  bus :: "access list"
  scu_calls :: "(8 word \<times> 8 word \<times> 32 word \<times> 'r) list"

definition hw_reset :: "'r hw" where
  "hw_reset = \<lparr>mem = (\<lambda>a. 0), bus = [], scu_calls = []\<rparr>"

definition GPIO_LPC_BASE :: addr where
  "GPIO_LPC_BASE = 0x400f4000"

definition GPIO_LPC_PIN_WORD_OFFSET :: addr where
  "GPIO_LPC_PIN_WORD_OFFSET = 0x1000"

definition GPIO_LPC_PORT_OFFSET :: addr where
  "GPIO_LPC_PORT_OFFSET = 0x2000"

definition GPIO_LPC_PIN_WORD_SIZE :: addr where
  "GPIO_LPC_PIN_WORD_SIZE = 32 * 4"

text \<open>Field offsets of \<open>struct gpio_registers\<close> (packed, 31 reserved words after each field).\<close>

definition reg_direction :: "addr \<Rightarrow> addr" where
  "reg_direction reg = reg + 0x000"

definition reg_mask :: "addr \<Rightarrow> addr" where
  "reg_mask reg = reg + 0x080"

definition reg_pins :: "addr \<Rightarrow> addr" where
  "reg_pins reg = reg + 0x100"

definition reg_masked_pins :: "addr \<Rightarrow> addr" where
  "reg_masked_pins reg = reg + 0x180"

definition reg_set :: "addr \<Rightarrow> addr" where
  "reg_set reg = reg + 0x200"

definition reg_clear :: "addr \<Rightarrow> addr" where
  "reg_clear reg = reg + 0x280"

definition reg_toggle :: "addr \<Rightarrow> addr" where
  "reg_toggle reg = reg + 0x300"

text \<open>
  Modelled from the spec: what the hardware does with an access is not in the driver. By
  the spec (3, 4.2, 8) and the field comments of \<open>struct gpio_registers\<close>:
  \<^item> a store to a set, clear or toggle register (offsets 0x200, 0x280, 0x300 of the port
    region) performs that bitwise operation on the pin-value register of the same port
    (offset 0x100);
  \<^item> a store to a masked-pins register (offset 0x180) reaches the pin-value register in the
    bits selected by the mask register (offset 0x080) of the port, and a load from it is
    the pin-value register filtered by the mask;
  \<^item> the per-pin word of a pin (region at 0x1000, 32 words per port) reads all ones when
    the bit of the pin is set in the pin-value register of its port and 0 when it is
    clear; a store of 0 to it clears that bit and a store of anything else sets it;
  \<^item> every other address is plain storage.
\<close>

definition pin_word_pins :: "addr \<Rightarrow> addr" where
  "pin_word_pins a = 0x400f6100 + 4 * ((a - 0x400f5000) div 128)"

definition pin_word_bit :: "addr \<Rightarrow> 32 word" where
  "pin_word_bit a = push_bit (unat (((a - 0x400f5000) div 4) mod 32)) 1"

definition hw_store :: "addr \<Rightarrow> 32 word \<Rightarrow> (addr \<Rightarrow> 32 word) \<Rightarrow> (addr \<Rightarrow> 32 word)" where
  "hw_store a v m =
     (if 0x400f6200 \<le> a \<and> a < 0x400f6280 then m(a - 0x100 := m (a - 0x100) OR v)
      else if 0x400f6280 \<le> a \<and> a < 0x400f6300 then m(a - 0x180 := m (a - 0x180) AND NOT v)
      else if 0x400f6300 \<le> a \<and> a < 0x400f6380 then m(a - 0x200 := m (a - 0x200) XOR v)
      else if 0x400f6180 \<le> a \<and> a < 0x400f6200
        then m(a - 0x80 := (m (a - 0x80) AND NOT (m (a - 0x100))) OR (v AND m (a - 0x100)))
      else if 0x400f5000 \<le> a \<and> a < 0x400f6000
        then m(pin_word_pins a :=
                 (if v = 0 then m (pin_word_pins a) AND NOT (pin_word_bit a)
                  else m (pin_word_pins a) OR pin_word_bit a))
      else m(a := v))"

definition hw_load :: "addr \<Rightarrow> (addr \<Rightarrow> 32 word) \<Rightarrow> 32 word" where
  "hw_load a m =
     (if 0x400f6180 \<le> a \<and> a < 0x400f6200 then m (a - 0x80) AND m (a - 0x100)
      else if 0x400f5000 \<le> a \<and> a < 0x400f6000
        then (if m (pin_word_pins a) AND pin_word_bit a = 0 then 0 else - 1)
      else m a)"

definition load :: "addr \<Rightarrow> 'r hw \<Rightarrow> 32 word \<times> 'r hw" where
  "load a s = (hw_load a (mem s), s\<lparr>bus := bus s @ [Load a]\<rparr>)"

definition store :: "addr \<Rightarrow> 32 word \<Rightarrow> 'r hw \<Rightarrow> 'r hw" where
  "store a v s = s\<lparr>mem := hw_store a v (mem s), bus := bus s @ [Store a v]\<rparr>"

text \<open>The stores among the accesses made: the hardware writes of a run.\<close>

fun is_store :: "access \<Rightarrow> bool" where
  "is_store (Store a v) = True"
| "is_store (Load a) = False"

definition hw_writes :: "'r hw \<Rightarrow> access list" where
  "hw_writes s = filter is_store (bus s)"

text \<open>The external collaborator: its call is recorded, nothing else is known of it.\<close>

definition platform_scu_configure_pin_gpio ::
  "8 word \<Rightarrow> 8 word \<Rightarrow> 32 word \<Rightarrow> 'r \<Rightarrow> 'r hw \<Rightarrow> 'r hw" where
  "platform_scu_configure_pin_gpio scu_group scu_pin scu_function resistor_mode s =
     s\<lparr>scu_calls := scu_calls s @ [(scu_group, scu_pin, scu_function, resistor_mode)]\<rparr>"

subsection \<open>Validation\<close>

text \<open>\<open>pr_warning\<close> only prints; it is left out.\<close>

definition validate_port :: "8 word \<Rightarrow> int" where
  "validate_port prt = (if unat prt > GPIO_MAX_PORTS then EINVAL else 0)"

definition validate_port_and_pin :: "gpio_pin_t \<Rightarrow> int" where
  "validate_port_and_pin gp =
     (if validate_port (port gp) \<noteq> 0 then EINVAL
      else if unat (port gp) > GPIO_MAX_PORT_BITS then EINVAL
      else 0)"

subsection \<open>Register addresses\<close>

definition gpio_get_registers :: "8 word \<Rightarrow> addr" where
  "gpio_get_registers prt = (GPIO_LPC_BASE + GPIO_LPC_PORT_OFFSET) + (ucast prt * 4)"

definition gpio_get_pin_register :: "gpio_pin_t \<Rightarrow> addr" where
  "gpio_get_pin_register gp =
     (GPIO_LPC_BASE + GPIO_LPC_PIN_WORD_OFFSET)
       + (ucast (port gp) * GPIO_LPC_PIN_WORD_SIZE)
       + (ucast (pin gp) * 4)"

subsection \<open>The topology tables\<close>

definition gpio_to_pin_group :: "8 word list list" where
  "gpio_to_pin_group = [
     [0, 0, 1, 1, 1, 6, 3, 2, 1, 1, 1, 1, 1, 1, 2, 1, -1, -1, -1, -1],
     [1, 1, 1, 1, 1, 1, 1, 1, 1, 1, 2, 2, 2, 2, 3, 3, -1, -1, -1, -1],
     [4, -1, 4, 4, 4, 4, 4, 5, -1, 5, 5, 5, 5, 5, 5, 5, -1, -1, -1, -1],
     [6, 6, 6, 6, 6, 6, 6, -1, 7, 7, 7, -1, -1, -1, -1, 7, -1, -1, -1, -1],
     [-1, -1, -1, -1, -1, -1, -1, -1, -1, -1, -1, 9, -1, -1, -1, -1, -1, -1, -1, -1],
     [2, 2, 2, 2, 2, 2, 2, 2, 3, 3, 3, -1, 4, 4, 4, 6, 6, -1, 9, -1]]"

definition gpio_to_pin_number :: "8 word list list" where
  "gpio_to_pin_number = [
     [0, 1, 15, 16, 0, 6, 6, 7, 1, 2, 3, 4, 17, 18, 10, 20, -1, -1, -1, -1],
     [7, 8, 9, 10, 11, 12, 13, 14, 5, 6, 9, 11, 12, 13, 4, 5, -1, -1, -1, -1],
     [0, -1, 2, 3, 4, 5, 6, 7, -1, 0, 1, 2, 3, 4, 5, 6, -1, -1, -1, -1],
     [1, 2, 3, 4, 5, 9, 10, -1, 0, 1, 2, -1, -1, -1, -1, 7, -1, -1, -1, -1],
     [-1, -1, -1, -1, -1, -1, -1, -1, -1, -1, -1, 6, -1, -1, -1, -1, -1, -1, -1, -1],
     [0, 1, 2, 3, 4, 5, 6, 8, 1, 2, 7, -1, 8, 9, 10, 7, 8, -1, 5, -1]]"

text \<open>
  A read of \<open>table[port][pin]\<close>. Outside the array the read is undefined behaviour in C:
  the model answers \<open>None\<close> there.
\<close>

definition table_read :: "8 word list list \<Rightarrow> gpio_pin_t \<Rightarrow> 8 word option" where
  "table_read t gp =
     (if unat (port gp) < length t \<and> unat (pin gp) < length (t ! unat (port gp))
      then Some (t ! unat (port gp) ! unat (pin gp))
      else None)"

definition gpio_get_group_number :: "gpio_pin_t \<Rightarrow> 8 word option" where
  "gpio_get_group_number gp =
     (if validate_port_and_pin gp \<noteq> 0 then Some (- 1)
      else table_read gpio_to_pin_group gp)"

definition gpio_get_pin_number :: "gpio_pin_t \<Rightarrow> 8 word option" where
  "gpio_get_pin_number gp =
     (if validate_port_and_pin gp \<noteq> 0 then Some (- 1)
      else table_read gpio_to_pin_number gp)"

subsection \<open>Pinmux configuration\<close>

text \<open>\<open>None\<close> is a run that read outside a table.\<close>

definition gpio_configure_pinmux_and_resistors ::
  "gpio_pin_t \<Rightarrow> 'r \<Rightarrow> 'r hw \<Rightarrow> (int \<times> 'r hw) option" where
  "gpio_configure_pinmux_and_resistors gp resistor_mode s =
     (if validate_port_and_pin gp \<noteq> 0 then Some (EINVAL, s)
      else case gpio_get_group_number gp of
        None \<Rightarrow> None
      | Some scu_group \<Rightarrow>
         (case gpio_get_pin_number gp of
            None \<Rightarrow> None
          | Some scu_pin \<Rightarrow>
             if scu_group = 0xff \<or> scu_pin = 0xff then Some (EINVAL, s)
             else let scu_function = (if port gp = 5 then 4 else 0) in
               Some (0, platform_scu_configure_pin_gpio scu_group scu_pin scu_function
                          resistor_mode s)))"

text \<open>
  \<open>gpio_configure_pinmux\<close> has no return statement: only its effect is modelled. The
  constant \<open>SCU_NO_PULL\<close> of \<open>drivers/scu.h\<close> is a parameter.
\<close>

definition gpio_configure_pinmux :: "'r \<Rightarrow> gpio_pin_t \<Rightarrow> 'r hw \<Rightarrow> 'r hw option" where
  "gpio_configure_pinmux SCU_NO_PULL gp s =
     map_option snd (gpio_configure_pinmux_and_resistors gp SCU_NO_PULL s)"

definition gpio_configure_port_pinmuxes ::
  "'r \<Rightarrow> 8 word \<Rightarrow> 'r hw \<Rightarrow> (int \<times> 'r hw) option" where
  "gpio_configure_port_pinmuxes SCU_NO_PULL prt s =
     (if validate_port prt \<noteq> 0 then Some (EINVAL, s)
      else map_option (\<lambda>s'. (0, s'))
             (fold (\<lambda>b acc. Option.bind acc
                      (gpio_configure_pinmux SCU_NO_PULL (gpio_pin prt (of_nat b))))
                [0..<GPIO_MAX_PORT_BITS] (Some s)))"

subsection \<open>Direction\<close>

definition gpio_set_port_direction ::
  "8 word \<Rightarrow> 32 word \<Rightarrow> 32 word \<Rightarrow> 'r hw \<Rightarrow> int \<times> 'r hw" where
  "gpio_set_port_direction prt msk output_mask s =
     (let reg = gpio_get_registers prt in
      if validate_port prt \<noteq> 0 then (EINVAL, s)
      else let (to_apply, s1) = load (reg_direction reg) s;
               to_apply = to_apply AND NOT msk;
               to_apply = to_apply OR output_mask
           in (0, store (reg_direction reg) to_apply s1))"

definition gpio_get_port_direction :: "8 word \<Rightarrow> 'r hw \<Rightarrow> 32 word \<times> 'r hw" where
  "gpio_get_port_direction prt s =
     (let reg = gpio_get_registers prt in
      if validate_port prt \<noteq> 0 then (0, s)
      else load (reg_direction reg) s)"

text \<open>
  \<open>pins >> pin.pin\<close> and \<open>1 << pin.pin\<close>: a shift by 32 or more is undefined in C;
  \<open>drop_bit\<close> and \<open>push_bit\<close> give 0 there, as the shift instructions of the target do.
  The direction is read before the pin is validated, as in the source.
\<close>

definition gpio_get_pin_direction :: "gpio_pin_t \<Rightarrow> 'r hw \<Rightarrow> 32 word \<times> 'r hw" where
  "gpio_get_pin_direction gp s =
     (let (pins, s1) = gpio_get_port_direction (port gp) s in
      if validate_port_and_pin gp \<noteq> 0 then (0, s1)
      else (drop_bit (unat (pin gp)) pins AND 1, s1))"


definition gpio_set_pin_direction :: "gpio_pin_t \<Rightarrow> bool \<Rightarrow> 'r hw \<Rightarrow> int \<times> 'r hw" where
  "gpio_set_pin_direction gp is_output s =
     (let msk = push_bit (unat (pin gp)) 1 in
      if validate_port_and_pin gp \<noteq> 0 then (EINVAL, s)
      else gpio_set_port_direction (port gp) msk (if is_output then msk else 0) s)"

subsection \<open>Port values\<close>

definition gpio_set_port_value ::
  "8 word \<Rightarrow> 32 word \<Rightarrow> 32 word \<Rightarrow> 'r hw \<Rightarrow> int \<times> 'r hw" where
  "gpio_set_port_value prt msk v s =
     (let reg = gpio_get_registers prt in
      if validate_port prt \<noteq> 0 then (EINVAL, s)
      else (0, store (reg_masked_pins reg) v (store (reg_mask reg) msk s)))"

definition gpio_set_port_bits :: "8 word \<Rightarrow> 32 word \<Rightarrow> 'r hw \<Rightarrow> int \<times> 'r hw" where
  "gpio_set_port_bits prt msk s =
     (let reg = gpio_get_registers prt in
      if validate_port prt \<noteq> 0 then (EINVAL, s)
      else (0, store (reg_set reg) msk s))"

definition gpio_clear_port_bits :: "8 word \<Rightarrow> 32 word \<Rightarrow> 'r hw \<Rightarrow> int \<times> 'r hw" where
  "gpio_clear_port_bits prt msk s =
     (let reg = gpio_get_registers prt in
      if validate_port prt \<noteq> 0 then (EINVAL, s)
      else (0, store (reg_clear reg) msk s))"

definition gpio_toggle_port_bits :: "8 word \<Rightarrow> 32 word \<Rightarrow> 'r hw \<Rightarrow> int \<times> 'r hw" where
  "gpio_toggle_port_bits prt msk s =
     (let reg = gpio_get_registers prt in
      if validate_port prt \<noteq> 0 then (EINVAL, s)
      else (0, store (reg_toggle reg) msk s))"

definition gpio_get_port_value :: "8 word \<Rightarrow> 32 word \<Rightarrow> 'r hw \<Rightarrow> 32 word \<times> 'r hw" where
  "gpio_get_port_value prt msk s =
     (let reg = gpio_get_registers prt in
      if validate_port prt \<noteq> 0 then (word_of_int EINVAL, s)
      else load (reg_masked_pins reg) (store (reg_mask reg) msk s))"

subsection \<open>Pin values\<close>

definition gpio_set_pin_value :: "gpio_pin_t \<Rightarrow> 8 word \<Rightarrow> 'r hw \<Rightarrow> int \<times> 'r hw" where
  "gpio_set_pin_value gp v s =
     (let pin_reg = gpio_get_pin_register gp in
      if validate_port_and_pin gp \<noteq> 0 then (EINVAL, s)
      else (0, store pin_reg (ucast v) s))"

definition gpio_set_pin :: "gpio_pin_t \<Rightarrow> 'r hw \<Rightarrow> int \<times> 'r hw" where
  "gpio_set_pin gp s =
     (if validate_port_and_pin gp \<noteq> 0 then (EINVAL, s)
      else (0, snd (gpio_set_port_bits (port gp) (push_bit (unat (pin gp)) 1) s)))"

definition gpio_clear_pin :: "gpio_pin_t \<Rightarrow> 'r hw \<Rightarrow> int \<times> 'r hw" where
  "gpio_clear_pin gp s =
     (if validate_port_and_pin gp \<noteq> 0 then (EINVAL, s)
      else (0, snd (gpio_clear_port_bits (port gp) (push_bit (unat (pin gp)) 1) s)))"

definition gpio_toggle_pin :: "gpio_pin_t \<Rightarrow> 'r hw \<Rightarrow> int \<times> 'r hw" where
  "gpio_toggle_pin gp s =
     (if validate_port_and_pin gp \<noteq> 0 then (EINVAL, s)
      else (0, snd (gpio_toggle_port_bits (port gp) (push_bit (unat (pin gp)) 1) s)))"

definition gpio_get_pin_value :: "gpio_pin_t \<Rightarrow> 'r hw \<Rightarrow> 8 word \<times> 'r hw" where
  "gpio_get_pin_value gp s =
     (let pin_reg = gpio_get_pin_register gp in
      if validate_port_and_pin gp \<noteq> 0 then (word_of_int EINVAL, s)
      else let (w, s1) = load pin_reg s in ((if w \<noteq> 0 then 1 else 0), s1))"

definition gpio_fast_get_pin_value :: "gpio_pin_t \<Rightarrow> 'r hw \<Rightarrow> 32 word \<times> 'r hw" where
  "gpio_fast_get_pin_value gp s = load (gpio_get_pin_register gp) s"

section \<open>Verification\<close>

subsection \<open>Valid identities and the tables\<close>

lemma port_cases:
  assumes "unat (p :: 8 word) < 6"
  shows "p = 0 \<or> p = 1 \<or> p = 2 \<or> p = 3 \<or> p = 4 \<or> p = 5"
proof -
  have "unat p = 0 \<or> unat p = 1 \<or> unat p = 2 \<or> unat p = 3 \<or> unat p = 4 \<or> unat p = 5"
    using assms by arith
  then show ?thesis
    by (simp add: word_unat_eq_iff)
qed

lemma valid_port_accepted:
  "unat prt < GPIO_MAX_PORTS \<Longrightarrow> validate_port prt = 0"
  by (simp add: validate_port_def)

lemma valid_pin_accepted:
  "unat (port gp) < GPIO_MAX_PORTS \<Longrightarrow> validate_port_and_pin gp = 0"
  by (simp add: validate_port_and_pin_def validate_port_def GPIO_MAX_PORTS_def
      GPIO_MAX_PORT_BITS_def)

lemma group_rows:
  "length gpio_to_pin_group = 6 \<and> list_all (\<lambda>row. length row = 20) gpio_to_pin_group"
  by (simp add: gpio_to_pin_group_def)

lemma number_rows:
  "length gpio_to_pin_number = 6 \<and> list_all (\<lambda>row. length row = 20) gpio_to_pin_number"
  by (simp add: gpio_to_pin_number_def)

lemma group_row_length: "i < 6 \<Longrightarrow> length (gpio_to_pin_group ! i) = 20"
  using group_rows by (simp add: list_all_length)

lemma number_row_length: "i < 6 \<Longrightarrow> length (gpio_to_pin_number ! i) = 20"
  using number_rows by (simp add: list_all_length)

lemma tables_agree_rows:
  "list_all2 (list_all2 (\<lambda>g n. (g = 0xff) = (n = 0xff))) gpio_to_pin_group gpio_to_pin_number"
  by (simp add: gpio_to_pin_group_def gpio_to_pin_number_def)

lemma tables_agree:
  assumes "i < 6" "j < 20"
  shows "(gpio_to_pin_group ! i ! j = 0xff) = (gpio_to_pin_number ! i ! j = 0xff)"
proof -
  have "list_all2 (\<lambda>g n. (g = 0xff) = (n = 0xff)) (gpio_to_pin_group ! i) (gpio_to_pin_number ! i)"
    using tables_agree_rows assms(1) group_rows by (simp add: list_all2_nthD)
  moreover have "j < length (gpio_to_pin_group ! i)"
    using assms group_row_length [of i] by simp
  ultimately show ?thesis
    by (rule list_all2_nthD)
qed

lemma valid_group_number:
  assumes "unat (port gp) < GPIO_MAX_PORTS" "unat (pin gp) < GPIO_MAX_PORT_BITS"
  shows "gpio_get_group_number gp = Some (gpio_to_pin_group ! unat (port gp) ! unat (pin gp))"
  using assms group_rows group_row_length [of "unat (port gp)"]
  by (simp add: gpio_get_group_number_def valid_pin_accepted table_read_def
      GPIO_MAX_PORTS_def GPIO_MAX_PORT_BITS_def)

lemma valid_pin_number:
  assumes "unat (port gp) < GPIO_MAX_PORTS" "unat (pin gp) < GPIO_MAX_PORT_BITS"
  shows "gpio_get_pin_number gp = Some (gpio_to_pin_number ! unat (port gp) ! unat (pin gp))"
  using assms number_rows number_row_length [of "unat (port gp)"]
  by (simp add: gpio_get_pin_number_def valid_pin_accepted table_read_def
      GPIO_MAX_PORTS_def GPIO_MAX_PORT_BITS_def)

subsection \<open>Pinmux routing\<close>

text \<open>
  C3. For every valid logical pin (port below \<open>GPIO_MAX_PORTS\<close>, pin below
  \<open>GPIO_MAX_PORT_BITS\<close>) whose entry is the unrouted sentinel 0xff in the group table or
  in the function-pin table, \<open>gpio_configure_pinmux_and_resistors\<close> returns \<open>EINVAL\<close> and
  leaves the state as it was: no call to \<open>platform_scu_configure_pin_gpio\<close> is recorded.
\<close>

theorem unrouted_pin_is_rejected:
  assumes "unat (port gp) < GPIO_MAX_PORTS" "unat (pin gp) < GPIO_MAX_PORT_BITS"
    and "gpio_get_group_number gp = Some 0xff \<or> gpio_get_pin_number gp = Some 0xff"
  shows "gpio_configure_pinmux_and_resistors gp resistor_mode s = Some (EINVAL, s)"
  using assms
  by (auto simp add: gpio_configure_pinmux_and_resistors_def valid_pin_accepted
      valid_group_number valid_pin_number)

theorem unrouted_pin_is_rejected_witness:
  "unat (port \<lparr>port = 2, pin = 1\<rparr>) < GPIO_MAX_PORTS
   \<and> unat (pin \<lparr>port = 2, pin = 1\<rparr>) < GPIO_MAX_PORT_BITS
   \<and> gpio_get_group_number \<lparr>port = 2, pin = 1\<rparr> = Some 0xff
   \<and> gpio_configure_pinmux_and_resistors \<lparr>port = 2, pin = 1\<rparr> () hw_reset
       = Some (EINVAL, hw_reset)
   \<and> scu_calls (snd (the (gpio_configure_pinmux_and_resistors \<lparr>port = 2, pin = 1\<rparr> ()
        hw_reset))) = []"
proof -
  have v: "unat (port \<lparr>port = 2, pin = 1\<rparr>) < GPIO_MAX_PORTS"
    "unat (pin \<lparr>port = 2, pin = 1\<rparr>) < GPIO_MAX_PORT_BITS"
    by (simp_all add: GPIO_MAX_PORTS_def GPIO_MAX_PORT_BITS_def)
  have g: "gpio_get_group_number \<lparr>port = 2, pin = 1\<rparr> = Some 0xff"
    by (simp add: valid_group_number [OF v] gpio_to_pin_group_def)
  from g have "gpio_get_group_number \<lparr>port = 2, pin = 1\<rparr> = Some 0xff
      \<or> gpio_get_pin_number \<lparr>port = 2, pin = 1\<rparr> = Some 0xff" by simp
  from unrouted_pin_is_rejected [OF v this, of "()" hw_reset] v g show ?thesis
    by (simp add: hw_reset_def)
qed

text \<open>
  C4. For every valid pair of port and pin, \<open>gpio_get_group_number\<close> and
  \<open>gpio_get_pin_number\<close> both return a table entry, and the one is the unrouted sentinel
  0xff exactly when the other is.
\<close>

theorem tables_route_both_or_neither:
  assumes "unat (port gp) < GPIO_MAX_PORTS" "unat (pin gp) < GPIO_MAX_PORT_BITS"
  shows "\<exists>g n. gpio_get_group_number gp = Some g \<and> gpio_get_pin_number gp = Some n
           \<and> ((g = 0xff) = (n = 0xff))"
  using assms tables_agree [of "unat (port gp)" "unat (pin gp)"]
  by (simp add: valid_group_number valid_pin_number GPIO_MAX_PORTS_def GPIO_MAX_PORT_BITS_def)

theorem tables_route_both_or_neither_witness:
  "unat (port \<lparr>port = 4, pin = 11\<rparr>) < GPIO_MAX_PORTS
   \<and> unat (pin \<lparr>port = 4, pin = 11\<rparr>) < GPIO_MAX_PORT_BITS
   \<and> (\<exists>g n. gpio_get_group_number \<lparr>port = 4, pin = 11\<rparr> = Some g
        \<and> gpio_get_pin_number \<lparr>port = 4, pin = 11\<rparr> = Some n
        \<and> ((g = 0xff) = (n = 0xff)))"
proof -
  have v: "unat (port \<lparr>port = 4, pin = 11\<rparr>) < GPIO_MAX_PORTS"
    "unat (pin \<lparr>port = 4, pin = 11\<rparr>) < GPIO_MAX_PORT_BITS"
    by (simp_all add: GPIO_MAX_PORTS_def GPIO_MAX_PORT_BITS_def)
  from tables_route_both_or_neither [OF v] v show ?thesis
    by blast
qed

text \<open>
  C5. For every valid logical pin that is routed in both tables,
  \<open>gpio_configure_pinmux_and_resistors\<close> succeeds with exactly one call to the collaborator,
  carrying the group and function pin of the tables, the resistor mode as given, and the
  function select 4 when the port is port 5 and 0 on every other port.
\<close>

theorem function_select_by_port:
  assumes "unat (port gp) < GPIO_MAX_PORTS" "unat (pin gp) < GPIO_MAX_PORT_BITS"
    and "gpio_get_group_number gp = Some g" "gpio_get_pin_number gp = Some n"
    and "g \<noteq> 0xff" "n \<noteq> 0xff"
  shows "gpio_configure_pinmux_and_resistors gp resistor_mode s =
           Some (0, s\<lparr>scu_calls := scu_calls s @
                   [(g, n, if port gp = 5 then 4 else 0, resistor_mode)]\<rparr>)"
  using assms
  by (simp add: gpio_configure_pinmux_and_resistors_def valid_pin_accepted
      platform_scu_configure_pin_gpio_def)

theorem function_select_by_port_witness:
  "unat (port \<lparr>port = 5, pin = 18\<rparr>) < GPIO_MAX_PORTS
   \<and> unat (pin \<lparr>port = 5, pin = 18\<rparr>) < GPIO_MAX_PORT_BITS
   \<and> gpio_get_group_number \<lparr>port = 5, pin = 18\<rparr> = Some 9
   \<and> gpio_get_pin_number \<lparr>port = 5, pin = 18\<rparr> = Some 5
   \<and> gpio_configure_pinmux_and_resistors \<lparr>port = 5, pin = 18\<rparr> True hw_reset =
        Some (0, hw_reset\<lparr>scu_calls := [(9, 5, 4, True)]\<rparr>)
   \<and> unat (port \<lparr>port = 3, pin = 15\<rparr>) < GPIO_MAX_PORTS
   \<and> unat (pin \<lparr>port = 3, pin = 15\<rparr>) < GPIO_MAX_PORT_BITS
   \<and> gpio_get_group_number \<lparr>port = 3, pin = 15\<rparr> = Some 7
   \<and> gpio_get_pin_number \<lparr>port = 3, pin = 15\<rparr> = Some 7
   \<and> gpio_configure_pinmux_and_resistors \<lparr>port = 3, pin = 15\<rparr> True hw_reset =
        Some (0, hw_reset\<lparr>scu_calls := [(7, 7, 0, True)]\<rparr>)"
proof -
  have v: "unat (port \<lparr>port = 5, pin = 18\<rparr>) < GPIO_MAX_PORTS"
    "unat (pin \<lparr>port = 5, pin = 18\<rparr>) < GPIO_MAX_PORT_BITS"
    by (simp_all add: GPIO_MAX_PORTS_def GPIO_MAX_PORT_BITS_def)
  have g: "gpio_get_group_number \<lparr>port = 5, pin = 18\<rparr> = Some 9"
    by (simp add: valid_group_number [OF v] gpio_to_pin_group_def)
  have n: "gpio_get_pin_number \<lparr>port = 5, pin = 18\<rparr> = Some 5"
    by (simp add: valid_pin_number [OF v] gpio_to_pin_number_def)
  have w: "unat (port \<lparr>port = 3, pin = 15\<rparr>) < GPIO_MAX_PORTS"
    "unat (pin \<lparr>port = 3, pin = 15\<rparr>) < GPIO_MAX_PORT_BITS"
    by (simp_all add: GPIO_MAX_PORTS_def GPIO_MAX_PORT_BITS_def)
  have h: "gpio_get_group_number \<lparr>port = 3, pin = 15\<rparr> = Some 7"
    by (simp add: valid_group_number [OF w] gpio_to_pin_group_def)
  have m: "gpio_get_pin_number \<lparr>port = 3, pin = 15\<rparr> = Some 7"
    by (simp add: valid_pin_number [OF w] gpio_to_pin_number_def)
  from function_select_by_port [OF v g n, of True hw_reset]
    function_select_by_port [OF w h m, of True hw_reset] v g n w h m
  show ?thesis
    by (simp add: hw_reset_def)
qed

text \<open>
  C6. Port 0, pin 2 resolves to group 1 and function pin 15, and routing it calls the
  collaborator once with group 1, pin 15, function 0 and the resistor mode as given.
\<close>

theorem port0_pin2_route:
  "gpio_get_group_number \<lparr>port = 0, pin = 2\<rparr> = Some 1
   \<and> gpio_get_pin_number \<lparr>port = 0, pin = 2\<rparr> = Some 15
   \<and> gpio_configure_pinmux_and_resistors \<lparr>port = 0, pin = 2\<rparr> resistor_mode s =
        Some (0, s\<lparr>scu_calls := scu_calls s @ [(1, 15, 0, resistor_mode)]\<rparr>)"
proof -
  have v: "validate_port_and_pin \<lparr>port = 0, pin = 2\<rparr> = 0"
    by (simp add: validate_port_and_pin_def validate_port_def)
  have g: "gpio_get_group_number \<lparr>port = 0, pin = 2\<rparr> = Some 1"
    by (simp add: gpio_get_group_number_def v table_read_def gpio_to_pin_group_def)
  have n: "gpio_get_pin_number \<lparr>port = 0, pin = 2\<rparr> = Some 15"
    by (simp add: gpio_get_pin_number_def v table_read_def gpio_to_pin_number_def)
  show ?thesis
    by (simp add: g n v gpio_configure_pinmux_and_resistors_def
        platform_scu_configure_pin_gpio_def)
qed

subsection \<open>Register addresses and the hardware's answers\<close>

lemma registers_of_port:
  "gpio_get_registers 0 = 0x400f6000" "gpio_get_registers 1 = 0x400f6004"
  "gpio_get_registers 2 = 0x400f6008" "gpio_get_registers 3 = 0x400f600c"
  "gpio_get_registers 4 = 0x400f6010" "gpio_get_registers 5 = 0x400f6014"
  by (simp_all add: gpio_get_registers_def GPIO_LPC_BASE_def GPIO_LPC_PORT_OFFSET_def)

lemma direction_store_plain:
  assumes "unat prt < GPIO_MAX_PORTS"
  shows "hw_store (reg_direction (gpio_get_registers prt)) v m
           = m(reg_direction (gpio_get_registers prt) := v)"
proof -
  from assms have "prt = 0 \<or> prt = 1 \<or> prt = 2 \<or> prt = 3 \<or> prt = 4 \<or> prt = 5"
    by (simp add: port_cases GPIO_MAX_PORTS_def)
  then show ?thesis
    by (elim disjE) (simp_all add: registers_of_port reg_direction_def hw_store_def)
qed

lemma direction_load_plain:
  assumes "unat prt < GPIO_MAX_PORTS"
  shows "hw_load (reg_direction (gpio_get_registers prt)) m
           = m (reg_direction (gpio_get_registers prt))"
proof -
  from assms have "prt = 0 \<or> prt = 1 \<or> prt = 2 \<or> prt = 3 \<or> prt = 4 \<or> prt = 5"
    by (simp add: port_cases GPIO_MAX_PORTS_def)
  then show ?thesis
    by (elim disjE) (simp_all add: registers_of_port reg_direction_def hw_load_def)
qed

lemma toggle_store_flips_pins:
  assumes "unat prt < GPIO_MAX_PORTS"
  shows "hw_store (reg_toggle (gpio_get_registers prt)) v m
           = m(reg_pins (gpio_get_registers prt) := m (reg_pins (gpio_get_registers prt)) XOR v)"
proof -
  from assms have "prt = 0 \<or> prt = 1 \<or> prt = 2 \<or> prt = 3 \<or> prt = 4 \<or> prt = 5"
    by (simp add: port_cases GPIO_MAX_PORTS_def)
  then show ?thesis
    by (elim disjE) (simp_all add: registers_of_port reg_toggle_def reg_pins_def hw_store_def)
qed

lemma set_store_raises_pins:
  assumes "unat prt < GPIO_MAX_PORTS"
  shows "hw_store (reg_set (gpio_get_registers prt)) v m
           = m(reg_pins (gpio_get_registers prt) := m (reg_pins (gpio_get_registers prt)) OR v)"
proof -
  from assms have "prt = 0 \<or> prt = 1 \<or> prt = 2 \<or> prt = 3 \<or> prt = 4 \<or> prt = 5"
    by (simp add: port_cases GPIO_MAX_PORTS_def)
  then show ?thesis
    by (elim disjE) (simp_all add: registers_of_port reg_set_def reg_pins_def hw_store_def)
qed

lemma clear_store_lowers_pins:
  assumes "unat prt < GPIO_MAX_PORTS"
  shows "hw_store (reg_clear (gpio_get_registers prt)) v m
           = m(reg_pins (gpio_get_registers prt) :=
                 m (reg_pins (gpio_get_registers prt)) AND NOT v)"
proof -
  from assms have "prt = 0 \<or> prt = 1 \<or> prt = 2 \<or> prt = 3 \<or> prt = 4 \<or> prt = 5"
    by (simp add: port_cases GPIO_MAX_PORTS_def)
  then show ?thesis
    by (elim disjE) (simp_all add: registers_of_port reg_clear_def reg_pins_def hw_store_def)
qed

lemma mask_store_plain:
  assumes "unat prt < GPIO_MAX_PORTS"
  shows "hw_store (reg_mask (gpio_get_registers prt)) v m
           = m(reg_mask (gpio_get_registers prt) := v)"
proof -
  from assms have "prt = 0 \<or> prt = 1 \<or> prt = 2 \<or> prt = 3 \<or> prt = 4 \<or> prt = 5"
    by (simp add: port_cases GPIO_MAX_PORTS_def)
  then show ?thesis
    by (elim disjE) (simp_all add: registers_of_port reg_mask_def hw_store_def)
qed

lemma masked_load_filters_pins:
  assumes "unat prt < GPIO_MAX_PORTS"
  shows "hw_load (reg_masked_pins (gpio_get_registers prt)) m
           = m (reg_pins (gpio_get_registers prt)) AND m (reg_mask (gpio_get_registers prt))"
proof -
  from assms have "prt = 0 \<or> prt = 1 \<or> prt = 2 \<or> prt = 3 \<or> prt = 4 \<or> prt = 5"
    by (simp add: port_cases GPIO_MAX_PORTS_def)
  then show ?thesis
    by (elim disjE)
      (simp_all add: registers_of_port reg_masked_pins_def reg_pins_def reg_mask_def
        hw_load_def)
qed

lemma port_registers_distinct:
  "reg_pins reg \<noteq> reg_mask reg" "reg_direction reg \<noteq> reg_pins reg"
  "reg_direction reg \<noteq> reg_mask reg"
  by (simp_all add: reg_pins_def reg_mask_def reg_direction_def)

lemma clear_then_or_frame:
  "\<not> bit msk n \<Longrightarrow> \<not> bit output_mask n \<Longrightarrow>
     bit ((w AND NOT msk) OR output_mask) n = bit (w :: 32 word) n"
  by (auto simp add: bit_or_iff bit_and_iff bit_not_iff dest: bit_imp_le_length)

lemma xor_twice: "(w XOR msk) XOR msk = (w :: 32 word)"
  by (simp add: xor.assoc)

subsection \<open>What validation rejects and what it lets through\<close>

lemma rejected_port: "GPIO_MAX_PORTS < unat prt \<Longrightarrow> validate_port prt = EINVAL"
  by (simp add: validate_port_def)

lemma rejected_pin: "GPIO_MAX_PORTS < unat (port gp) \<Longrightarrow> validate_port_and_pin gp = EINVAL"
  by (simp add: validate_port_and_pin_def validate_port_def)

lemma EINVAL_nonzero: "EINVAL \<noteq> 0"
  by (simp add: EINVAL_def)

text \<open>
  A port above \<open>GPIO_MAX_PORTS\<close> is rejected by every operation before any access: the
  state comes back as it was. The two direction getters answer 0 there, the two value
  getters the error constant, every other operation \<open>EINVAL\<close>.
\<close>

lemma rejected_port_fails_closed:
  assumes "GPIO_MAX_PORTS < unat prt"
  shows "gpio_set_port_direction prt msk output_mask s = (EINVAL, s)"
    and "gpio_get_port_direction prt s = (0, s)"
    and "gpio_set_port_value prt msk v s = (EINVAL, s)"
    and "gpio_set_port_bits prt msk s = (EINVAL, s)"
    and "gpio_clear_port_bits prt msk s = (EINVAL, s)"
    and "gpio_toggle_port_bits prt msk s = (EINVAL, s)"
    and "gpio_get_port_value prt msk s = (word_of_int EINVAL, s)"
    and "gpio_configure_port_pinmuxes no_pull prt s = Some (EINVAL, s)"
  using assms
  by (simp_all add: validate_port_def EINVAL_def Let_def
      gpio_set_port_direction_def gpio_get_port_direction_def gpio_set_port_value_def
      gpio_set_port_bits_def gpio_clear_port_bits_def gpio_toggle_port_bits_def
      gpio_get_port_value_def gpio_configure_port_pinmuxes_def)

lemma rejected_pin_fails_closed:
  assumes "GPIO_MAX_PORTS < unat (port gp)"
  shows "gpio_set_pin_direction gp is_output s = (EINVAL, s)"
    and "gpio_get_pin_direction gp s = (0, s)"
    and "gpio_set_pin_value gp v s = (EINVAL, s)"
    and "gpio_set_pin gp s = (EINVAL, s)"
    and "gpio_clear_pin gp s = (EINVAL, s)"
    and "gpio_toggle_pin gp s = (EINVAL, s)"
    and "gpio_get_pin_value gp s = (word_of_int EINVAL, s)"
    and "gpio_configure_pinmux_and_resistors gp resistor_mode s = Some (EINVAL, s)"
  using assms
  by (simp_all add: validate_port_and_pin_def validate_port_def EINVAL_def Let_def
      gpio_set_pin_direction_def gpio_get_pin_direction_def gpio_get_port_direction_def
      gpio_set_pin_value_def gpio_set_pin_def gpio_clear_pin_def gpio_toggle_pin_def
      gpio_get_pin_value_def gpio_configure_pinmux_and_resistors_def)

lemma fold_bind_None:
  "fold (\<lambda>b acc. Option.bind acc (f b)) bs None = None"
  by (induction bs) simp_all

lemma accepted_past_the_tables:
  "validate_port 6 = 0" "validate_port_and_pin \<lparr>port = 6, pin = b\<rparr> = 0"
  "validate_port_and_pin \<lparr>port = 0, pin = b\<rparr> = 0"
  by (simp_all add: validate_port_and_pin_def validate_port_def GPIO_MAX_PORTS_def
      GPIO_MAX_PORT_BITS_def)

subsection \<open>Masked reads on a valid port\<close>

text \<open>
  On a valid port \<open>gpio_get_port_value\<close> stores the mask and reads the pin-value register
  filtered by it, so setting the bits of a mask and reading under the same mask gives the
  mask back, and clearing them gives 0.
\<close>

lemma valid_port_value_is_filtered_pins:
  assumes "unat q < GPIO_MAX_PORTS"
  shows "fst (gpio_get_port_value q m t)
           = mem t (reg_pins (gpio_get_registers q)) AND m"
  using assms
  by (simp add: gpio_get_port_value_def valid_port_accepted load_def store_def
      mask_store_plain masked_load_filters_pins Let_def port_registers_distinct)

lemma set_bits_then_masked_read:
  assumes "unat q < GPIO_MAX_PORTS"
  shows "fst (gpio_get_port_value q m (snd (gpio_set_port_bits q m t))) = m"
    and "fst (gpio_get_port_value q m (snd (gpio_clear_port_bits q m t))) = 0"
  using assms
  by (simp_all add: valid_port_value_is_filtered_pins gpio_set_port_bits_def
      gpio_clear_port_bits_def valid_port_accepted store_def set_store_raises_pins
      clear_store_lowers_pins Let_def bit_eq_iff bit_and_iff bit_or_iff bit_not_iff)

lemma valid_port_direction_is_register:
  assumes "unat q < GPIO_MAX_PORTS"
  shows "fst (gpio_get_port_direction q t) = mem t (reg_direction (gpio_get_registers q))"
  using assms
  by (simp add: gpio_get_port_direction_def valid_port_accepted load_def
      direction_load_plain Let_def)

text \<open>
  A read of 22 on a valid port needs a mask that selects bits 1, 2 and 4: under any other
  mask the word 22 can only be the error constant.
\<close>

lemma valid_read_of_22_needs_its_bits:
  assumes "unat q < GPIO_MAX_PORTS" and "fst (gpio_get_port_value q m t) = 22"
  shows "22 AND m = 22"
proof -
  let ?pins = "mem t (reg_pins (gpio_get_registers q))"
  have e: "?pins AND m = 22"
    using assms by (simp add: valid_port_value_is_filtered_pins)
  have "22 AND m = (?pins AND m) AND m"
    by (simp only: e)
  also have "\<dots> = ?pins AND m"
    by (simp add: and.assoc)
  finally show ?thesis
    by (simp only: e)
qed

subsection \<open>Direction\<close>

text \<open>
  What the code computes on a valid port: the direction word \<open>d\<close> becomes
  \<open>(d AND NOT msk) OR output_mask\<close> and nothing else in the register window changes.
  When \<open>output_mask\<close> stays within \<open>msk\<close>, every bit outside \<open>msk\<close> keeps its value.
\<close>

lemma set_port_direction_effect:
  assumes "unat prt < GPIO_MAX_PORTS"
  shows "fst (gpio_set_port_direction prt msk output_mask s) = 0
    \<and> mem (snd (gpio_set_port_direction prt msk output_mask s))
        = (mem s)(reg_direction (gpio_get_registers prt) :=
             (mem s (reg_direction (gpio_get_registers prt)) AND NOT msk) OR output_mask)"
  using assms
  by (simp add: gpio_set_port_direction_def valid_port_accepted load_def store_def
      direction_store_plain direction_load_plain Let_def)

lemma set_port_direction_frame_within_mask:
  assumes "unat prt < GPIO_MAX_PORTS" and "output_mask AND NOT msk = 0" and "\<not> bit msk n"
  shows "bit (mem (snd (gpio_set_port_direction prt msk output_mask s))
                 (reg_direction (gpio_get_registers prt))) n
          = bit (mem s (reg_direction (gpio_get_registers prt))) n"
proof -
  have "bit (output_mask AND NOT msk) n = False"
    using assms(2) by simp
  with assms(3) have "\<not> bit output_mask n"
    by (auto simp add: bit_and_iff bit_not_iff dest: bit_imp_le_length)
  with assms(3) show ?thesis
    by (simp add: set_port_direction_effect [OF assms(1)] clear_then_or_frame)
qed

text \<open>
  C7. \<open>gpio_set_port_direction\<close> ORs \<open>output_mask\<close> into the direction word without
  restricting it to \<open>msk\<close>, although its documentation has the mask select the bits that
  are configured. On port 0, from a direction word 0, with an empty mask and
  \<open>output_mask = 1\<close>, the call returns 0 and stores 1: bit 0, which the mask does not
  select, changes. From a direction word 3, with mask 0x0f and \<open>output_mask = 0x10\<close>, the
  selected bits 0 and 1 are cleared and bit 4, outside the mask, is set. The claim asks
  that every bit not selected by the mask is left unchanged.
\<close>

theorem set_port_direction_sets_unselected_bit:
  "unat (0 :: 8 word) < GPIO_MAX_PORTS
   \<and> \<not> bit (0 :: 32 word) 0
   \<and> fst (gpio_set_port_direction 0 0 1 (hw_reset :: unit hw)) = 0
   \<and> mem (hw_reset :: unit hw) (reg_direction (gpio_get_registers 0)) = 0
   \<and> mem (snd (gpio_set_port_direction 0 0 1 (hw_reset :: unit hw)))
        (reg_direction (gpio_get_registers 0)) = 1
   \<and> hw_writes (snd (gpio_set_port_direction 0 0 1 (hw_reset :: unit hw)))
        = [Store 0x400f6000 1]
   \<and> \<not> bit (0x0f :: 32 word) 4
   \<and> fst (gpio_set_port_direction 0 0x0f 0x10
        ((hw_reset :: unit hw)\<lparr>mem := (\<lambda>a. 0)(0x400f6000 := 0x03)\<rparr>)) = 0
   \<and> mem (snd (gpio_set_port_direction 0 0x0f 0x10
        ((hw_reset :: unit hw)\<lparr>mem := (\<lambda>a. 0)(0x400f6000 := 0x03)\<rparr>)))
        (reg_direction (gpio_get_registers 0)) = 0x10"
  by (simp add: gpio_set_port_direction_def validate_port_def GPIO_MAX_PORTS_def load_def
      store_def hw_store_def hw_load_def hw_reset_def hw_writes_def registers_of_port
      reg_direction_def Let_def)

subsection \<open>Toggling\<close>

text \<open>
  C8. For every valid port and every mask, \<open>gpio_toggle_port_bits\<close> returns 0 and flips
  the bits of the mask in the pin-value register of the port, and a second call with the
  same mask brings the register window, the pin-value register with it, back to what it
  was. The effect of the store to the toggle register is that of \<open>hw_store\<close>.
\<close>

theorem toggle_twice_restores_pins:
  assumes "unat prt < GPIO_MAX_PORTS"
  shows "fst (gpio_toggle_port_bits prt msk s) = 0
    \<and> mem (snd (gpio_toggle_port_bits prt msk s)) (reg_pins (gpio_get_registers prt))
        = mem s (reg_pins (gpio_get_registers prt)) XOR msk
    \<and> fst (gpio_toggle_port_bits prt msk (snd (gpio_toggle_port_bits prt msk s))) = 0
    \<and> mem (snd (gpio_toggle_port_bits prt msk (snd (gpio_toggle_port_bits prt msk s))))
        = mem s"
  using assms
  by (simp add: gpio_toggle_port_bits_def valid_port_accepted store_def
      toggle_store_flips_pins Let_def xor_twice)

theorem toggle_twice_restores_pins_witness:
  "unat (2 :: 8 word) < GPIO_MAX_PORTS
   \<and> mem (snd (gpio_toggle_port_bits 2 0x30 (hw_reset :: unit hw))) 0x400f6108 = 0x30
   \<and> mem (snd (gpio_toggle_port_bits 2 0x30
             (snd (gpio_toggle_port_bits 2 0x30 (hw_reset :: unit hw))))) 0x400f6108 = 0"
proof -
  have v: "unat (2 :: 8 word) < GPIO_MAX_PORTS"
    by (simp add: GPIO_MAX_PORTS_def)
  from toggle_twice_restores_pins [OF v, of "0x30" "hw_reset :: unit hw"] v
  show ?thesis
    by (simp add: hw_reset_def registers_of_port reg_pins_def)
qed

subsection \<open>Reading a pin\<close>

text \<open>
  C9, as amended. For every valid pin identity \<open>gpio_get_pin_value\<close> returns 0 when the
  per-pin word register reads 0 and 1 when it reads anything else, and writes nothing; for
  every pin identity whose port is above \<open>GPIO_MAX_PORTS\<close> it returns the error constant
  \<open>EINVAL\<close> (22) without any access.
\<close>

theorem get_pin_value_normalised:
  "(unat (port gp) < GPIO_MAX_PORTS \<and> unat (pin gp) < GPIO_MAX_PORT_BITS \<longrightarrow>
      fst (gpio_get_pin_value gp s)
        = (if hw_load (gpio_get_pin_register gp) (mem s) = 0 then 0 else 1)
      \<and> fst (gpio_get_pin_value gp s) \<in> {0, 1}
      \<and> hw_writes (snd (gpio_get_pin_value gp s)) = hw_writes s)
   \<and> (GPIO_MAX_PORTS < unat (port gp) \<longrightarrow>
        gpio_get_pin_value gp s = (word_of_int EINVAL, s))"
  by (simp add: gpio_get_pin_value_def valid_pin_accepted rejected_pin EINVAL_nonzero
      load_def Let_def hw_writes_def)

theorem get_pin_value_normalised_witness:
  "unat (port \<lparr>port = 1, pin = 3\<rparr>) < GPIO_MAX_PORTS
   \<and> unat (pin \<lparr>port = 1, pin = 3\<rparr>) < GPIO_MAX_PORT_BITS
   \<and> fst (gpio_get_pin_value \<lparr>port = 1, pin = 3\<rparr>
        ((hw_reset :: unit hw)\<lparr>mem := (\<lambda>a. 0)(0x400f6104 := 0x08)\<rparr>)) = 1
   \<and> fst (gpio_get_pin_value \<lparr>port = 1, pin = 3\<rparr> (hw_reset :: unit hw)) = 0
   \<and> GPIO_MAX_PORTS < unat (port \<lparr>port = 9, pin = 3\<rparr>)
   \<and> gpio_get_pin_value \<lparr>port = 9, pin = 3\<rparr> (hw_reset :: unit hw) = (22, hw_reset)"
proof -
  have v: "unat (port \<lparr>port = 1, pin = 3\<rparr>) < GPIO_MAX_PORTS
      \<and> unat (pin \<lparr>port = 1, pin = 3\<rparr>) < GPIO_MAX_PORT_BITS"
    by (simp add: GPIO_MAX_PORTS_def GPIO_MAX_PORT_BITS_def)
  have r: "GPIO_MAX_PORTS < unat (port \<lparr>port = 9, pin = 3\<rparr>)"
    by (simp add: GPIO_MAX_PORTS_def)
  have a: "gpio_get_pin_register \<lparr>port = 1, pin = 3\<rparr> = 0x400f508c"
    by (simp add: gpio_get_pin_register_def GPIO_LPC_BASE_def GPIO_LPC_PIN_WORD_OFFSET_def
        GPIO_LPC_PIN_WORD_SIZE_def)
  have h: "hw_load 0x400f508c ((\<lambda>a. 0)(0x400f6104 := 0x08)) = - 1"
    "hw_load 0x400f508c (\<lambda>a. 0) = 0"
    by (simp_all add: hw_load_def pin_word_pins_def pin_word_bit_def)
  from get_pin_value_normalised
         [of "\<lparr>port = 1, pin = 3\<rparr>"
             "(hw_reset :: unit hw)\<lparr>mem := (\<lambda>a. 0)(0x400f6104 := 0x08)\<rparr>"]
       get_pin_value_normalised [of "\<lparr>port = 1, pin = 3\<rparr>" "hw_reset :: unit hw"]
       get_pin_value_normalised [of "\<lparr>port = 9, pin = 3\<rparr>" "hw_reset :: unit hw"] v r
  show ?thesis
    by (simp add: hw_reset_def EINVAL_def a h)
qed

text \<open>
  The claim as written promises 0 or 1 for every pin identity. For port 7, pin 0 the
  validation fails and the result is 22.
\<close>

theorem get_pin_value_counterexample:
  "fst (gpio_get_pin_value \<lparr>port = 7, pin = 0\<rparr> (hw_reset :: unit hw)) = 22
   \<and> fst (gpio_get_pin_value \<lparr>port = 7, pin = 0\<rparr> (hw_reset :: unit hw)) \<notin> {0, 1}"
  by (simp add: gpio_get_pin_value_def validate_port_and_pin_def validate_port_def
      GPIO_MAX_PORTS_def EINVAL_def)

subsection \<open>Errors folded into the data\<close>

text \<open>
  C10. When \<open>validate_port\<close> fails, \<open>gpio_get_port_value\<close> returns the word 22 and
  \<open>gpio_get_port_direction\<close> the word 0, both without any access and with nothing but
  that word returned. On every valid port \<open>q\<close> a read of the value is the pin-value
  register filtered by the mask and a read of the direction is the direction register, and
  there are a mask and a state in which these legitimate reads are the same two words: 22
  for pins 1, 2 and 4 high under a mask that selects them, 0 for a port whose pins are all
  inputs.
\<close>

theorem rejected_reads_fold_error_into_data:
  assumes "validate_port prt \<noteq> 0" and "unat q < GPIO_MAX_PORTS"
  shows "gpio_get_port_value prt msk s = (22, s)
    \<and> gpio_get_port_direction prt s = (0, s)
    \<and> validate_port q = 0
    \<and> (\<forall>m t. fst (gpio_get_port_value q m (t :: 'r hw))
                 = mem t (reg_pins (gpio_get_registers q)) AND m)
    \<and> (\<forall>t. fst (gpio_get_port_direction q (t :: 'r hw))
                 = mem t (reg_direction (gpio_get_registers q)))
    \<and> (\<exists>m t. fst (gpio_get_port_value q m (t :: 'r hw)) = 22
           \<and> fst (gpio_get_port_direction q t) = 0)"
proof -
  let ?t = "(hw_reset :: 'r hw)\<lparr>mem := (\<lambda>a. 0)(reg_pins (gpio_get_registers q) := 0x16)\<rparr>"
  have "fst (gpio_get_port_value q 0xff ?t) = 22"
    using assms(2) by (simp add: valid_port_value_is_filtered_pins)
  moreover have "fst (gpio_get_port_direction q ?t) = 0"
    using assms(2) by (simp add: valid_port_direction_is_register port_registers_distinct)
  ultimately have "\<exists>m t. fst (gpio_get_port_value q m (t :: 'r hw)) = 22
           \<and> fst (gpio_get_port_direction q t) = 0"
    by blast
  with assms show ?thesis
    by (simp add: valid_port_value_is_filtered_pins valid_port_direction_is_register
        valid_port_accepted)
      (simp add: gpio_get_port_value_def gpio_get_port_direction_def EINVAL_def Let_def)
qed

theorem rejected_reads_fold_error_into_data_witness:
  "validate_port 7 \<noteq> 0 \<and> unat (2 :: 8 word) < GPIO_MAX_PORTS
   \<and> gpio_get_port_value 7 0xff (hw_reset :: unit hw) = (22, hw_reset)
   \<and> gpio_get_port_direction 7 (hw_reset :: unit hw) = (0, hw_reset)
   \<and> fst (gpio_get_port_value 2 0xff
        ((hw_reset :: unit hw)\<lparr>mem := (\<lambda>a. 0)(0x400f6108 := 0x116)\<rparr>)) = 22
   \<and> fst (gpio_get_port_direction 2
        ((hw_reset :: unit hw)\<lparr>mem := (\<lambda>a. 0)(0x400f6108 := 0x116)\<rparr>)) = 0"
proof -
  let ?t = "(hw_reset :: unit hw)\<lparr>mem := (\<lambda>a. 0)(0x400f6108 := 0x116)\<rparr>"
  have r: "validate_port 7 \<noteq> 0"
    by (simp add: validate_port_def GPIO_MAX_PORTS_def EINVAL_def)
  have v: "unat (2 :: 8 word) < GPIO_MAX_PORTS"
    by (simp add: GPIO_MAX_PORTS_def)
  note th = rejected_reads_fold_error_into_data [OF r v, of "0xff" "hw_reset :: unit hw"]
  from th have "fst (gpio_get_port_value 2 0xff ?t)
      = mem ?t (reg_pins (gpio_get_registers 2)) AND 0xff"
    by blast
  then have a: "fst (gpio_get_port_value 2 0xff ?t) = 22"
    by (simp add: registers_of_port reg_pins_def)
  from th have "fst (gpio_get_port_direction 2 ?t)
      = mem ?t (reg_direction (gpio_get_registers 2))"
    by blast
  then have b: "fst (gpio_get_port_direction 2 ?t) = 0"
    by (simp add: registers_of_port reg_direction_def)
  from th r v a b show ?thesis
    by blast
qed

subsection \<open>The two validation defects\<close>

text \<open>
  C1. \<open>validate_port_and_pin\<close> compares the port, not the pin, with
  \<open>GPIO_MAX_PORT_BITS\<close>. The pin identity port 0, pin 20 has a pin index that is not below
  \<open>GPIO_MAX_PORT_BITS\<close> and is accepted: the pin-level operations return 0, store to the
  set, clear, toggle, per-pin and direction registers, and the two getters read the bit
  back, where the claim asks for the error and no write.
\<close>

theorem pin_index_is_never_checked:
  "GPIO_MAX_PORT_BITS \<le> unat (pin \<lparr>port = 0, pin = 20\<rparr>)
   \<and> validate_port_and_pin \<lparr>port = 0, pin = 20\<rparr> = 0
   \<and> fst (gpio_set_pin \<lparr>port = 0, pin = 20\<rparr> (hw_reset :: unit hw)) = 0
   \<and> hw_writes (snd (gpio_set_pin \<lparr>port = 0, pin = 20\<rparr> (hw_reset :: unit hw)))
        = [Store 0x400f6200 0x100000]
   \<and> fst (gpio_clear_pin \<lparr>port = 0, pin = 20\<rparr> (hw_reset :: unit hw)) = 0
   \<and> hw_writes (snd (gpio_clear_pin \<lparr>port = 0, pin = 20\<rparr> (hw_reset :: unit hw)))
        = [Store 0x400f6280 0x100000]
   \<and> fst (gpio_toggle_pin \<lparr>port = 0, pin = 20\<rparr> (hw_reset :: unit hw)) = 0
   \<and> hw_writes (snd (gpio_toggle_pin \<lparr>port = 0, pin = 20\<rparr> (hw_reset :: unit hw)))
        = [Store 0x400f6300 0x100000]
   \<and> fst (gpio_set_pin_value \<lparr>port = 0, pin = 20\<rparr> 1 (hw_reset :: unit hw)) = 0
   \<and> hw_writes (snd (gpio_set_pin_value \<lparr>port = 0, pin = 20\<rparr> 1 (hw_reset :: unit hw)))
        = [Store 0x400f5050 1]
   \<and> fst (gpio_set_pin_direction \<lparr>port = 0, pin = 20\<rparr> True (hw_reset :: unit hw)) = 0
   \<and> hw_writes (snd (gpio_set_pin_direction \<lparr>port = 0, pin = 20\<rparr> True
         (hw_reset :: unit hw))) = [Store 0x400f6000 0x100000]
   \<and> fst (gpio_get_pin_direction \<lparr>port = 0, pin = 20\<rparr>
         (snd (gpio_set_pin_direction \<lparr>port = 0, pin = 20\<rparr> True (hw_reset :: unit hw)))) = 1
   \<and> fst (gpio_get_pin_value \<lparr>port = 0, pin = 20\<rparr>
         (snd (gpio_set_pin_value \<lparr>port = 0, pin = 20\<rparr> 1 (hw_reset :: unit hw)))) = 1"
  by (simp add: accepted_past_the_tables GPIO_MAX_PORT_BITS_def
      gpio_set_pin_def gpio_clear_pin_def gpio_toggle_pin_def gpio_set_pin_value_def
      gpio_set_pin_direction_def gpio_get_pin_direction_def gpio_get_pin_value_def
      gpio_set_port_bits_def gpio_clear_port_bits_def gpio_toggle_port_bits_def
      gpio_set_port_direction_def gpio_get_port_direction_def validate_port_def
      GPIO_MAX_PORTS_def
      gpio_get_registers_def gpio_get_pin_register_def GPIO_LPC_BASE_def
      GPIO_LPC_PORT_OFFSET_def GPIO_LPC_PIN_WORD_OFFSET_def GPIO_LPC_PIN_WORD_SIZE_def
      reg_set_def reg_clear_def reg_toggle_def reg_direction_def
      load_def store_def hw_store_def hw_load_def pin_word_pins_def pin_word_bit_def
      hw_writes_def hw_reset_def Let_def)

text \<open>
  C2. \<open>validate_port\<close> rejects a port only above \<open>GPIO_MAX_PORTS\<close>. Port 6, the first
  index past the tables, is accepted: the port-level operations return 0 and store to the
  registers at offset 0x18, and \<open>gpio_configure_port_pinmuxes\<close> reads outside the tables,
  where the claim asks for the error and no write.
\<close>

theorem port_bound_is_off_by_one:
  "GPIO_MAX_PORTS \<le> unat (6 :: 8 word)
   \<and> validate_port 6 = 0
   \<and> fst (gpio_set_port_bits 6 1 (hw_reset :: unit hw)) = 0
   \<and> hw_writes (snd (gpio_set_port_bits 6 1 (hw_reset :: unit hw))) = [Store 0x400f6218 1]
   \<and> fst (gpio_clear_port_bits 6 1 (hw_reset :: unit hw)) = 0
   \<and> hw_writes (snd (gpio_clear_port_bits 6 1 (hw_reset :: unit hw))) = [Store 0x400f6298 1]
   \<and> fst (gpio_toggle_port_bits 6 1 (hw_reset :: unit hw)) = 0
   \<and> hw_writes (snd (gpio_toggle_port_bits 6 1 (hw_reset :: unit hw))) = [Store 0x400f6318 1]
   \<and> fst (gpio_set_port_value 6 1 1 (hw_reset :: unit hw)) = 0
   \<and> hw_writes (snd (gpio_set_port_value 6 1 1 (hw_reset :: unit hw)))
        = [Store 0x400f6098 1, Store 0x400f6198 1]
   \<and> fst (gpio_set_port_direction 6 1 1 (hw_reset :: unit hw)) = 0
   \<and> hw_writes (snd (gpio_set_port_direction 6 1 1 (hw_reset :: unit hw)))
        = [Store 0x400f6018 1]
   \<and> fst (gpio_get_port_direction 6
         (snd (gpio_set_port_direction 6 1 1 (hw_reset :: unit hw)))) = 1
   \<and> fst (gpio_get_port_value 6 1 (hw_reset :: unit hw)) = 0
   \<and> hw_writes (snd (gpio_get_port_value 6 1 (hw_reset :: unit hw))) = [Store 0x400f6098 1]
   \<and> gpio_configure_port_pinmuxes () 6 (hw_reset :: unit hw) = None"
proof -
  have t: "gpio_get_group_number \<lparr>port = 6, pin = b\<rparr> = None" for b
    by (simp add: gpio_get_group_number_def accepted_past_the_tables table_read_def
        gpio_to_pin_group_def)
  have "gpio_configure_pinmux () (gpio_pin 6 (of_nat 0)) (hw_reset :: unit hw) = None"
    by (simp add: gpio_configure_pinmux_def gpio_configure_pinmux_and_resistors_def
        gpio_pin_def accepted_past_the_tables t)
  then have "fold (\<lambda>b acc. Option.bind acc (gpio_configure_pinmux () (gpio_pin 6 (of_nat b))))
          (0 # [Suc 0..<GPIO_MAX_PORT_BITS]) (Some (hw_reset :: unit hw)) = None"
    by (simp add: fold_bind_None)
  moreover have "[0..<GPIO_MAX_PORT_BITS] = 0 # [Suc 0..<GPIO_MAX_PORT_BITS]"
    by (simp add: GPIO_MAX_PORT_BITS_def upt_conv_Cons)
  ultimately have p: "gpio_configure_port_pinmuxes () 6 (hw_reset :: unit hw) = None"
    by (simp add: gpio_configure_port_pinmuxes_def accepted_past_the_tables)
  from p show ?thesis
    by (simp add: accepted_past_the_tables GPIO_MAX_PORTS_def
      gpio_set_port_bits_def gpio_clear_port_bits_def gpio_toggle_port_bits_def
      gpio_set_port_value_def gpio_get_port_value_def
      gpio_set_port_direction_def gpio_get_port_direction_def
      gpio_get_registers_def GPIO_LPC_BASE_def GPIO_LPC_PORT_OFFSET_def
      reg_set_def reg_clear_def reg_toggle_def reg_direction_def reg_mask_def
      reg_masked_pins_def
      load_def store_def hw_store_def hw_load_def pin_word_pins_def pin_word_bit_def
      hw_writes_def hw_reset_def Let_def)
qed

end
